theory Spec2Isabelle
  imports Complex_Main
begin

section \<open>Data model of the Splatfacto model (src/run.py)\<close>

text \<open>
  Tensors of floats are modelled over the reals: rounding, infinities and NaN are not
  represented. A tensor whose leading dimension is the primitive axis is a list of rows,
  each row the flattened trailing dimensions, together with the trailing shape
  (\<open>shape[1:]\<close>), which an empty tensor still has.
\<close>

datatype error = AssertionError | IndexError | RuntimeError | ZeroDivisionError | KeyError
  | ScalarMask

text \<open>
  \<open>ScalarMask\<close> is not a Python exception: the source calls \<open>.squeeze()\<close> on every
  per-primitive mask, which for exactly one primitive yields a 0-dimensional tensor and
  changes what boolean indexing does. That case is outside this model and is reported by
  this value wherever a squeezed mask is built.
\<close>

definition bind_res :: "error + 'a \<Rightarrow> ('a \<Rightarrow> error + 'b) \<Rightarrow> error + 'b" where
  "bind_res r f = (case r of Inl e \<Rightarrow> Inl e | Inr x \<Rightarrow> f x)"

record tensor =
  tshape :: "nat list"
  rows :: "real list list"

datatype bg_mode = BgRandom | BgBlack | BgWhite | BgOther

datatype raster_mode = Classic | Antialiased | RasterOther

record config =
  warmup_length :: int
  refine_every :: int
  resolution_schedule :: int
  background_color :: bg_mode
  num_downscales :: int
  cull_alpha_thresh :: real
  cull_scale_thresh :: real
  continue_cull_post_densification :: bool
  reset_alpha_every :: int
  densify_grad_thresh :: real
  densify_size_thresh :: real
  n_split_samples :: int
  sh_degree_interval :: int
  cull_screen_size :: real
  split_screen_size :: real
  stop_screen_size_at :: int
  random_init :: bool
  num_random :: int
  ssim_lambda :: real
  stop_split_at :: int
  sh_degree :: int
  use_scale_regularization :: bool
  max_gauss_ratio :: real
  output_depth_during_training :: bool
  rasterize_mode :: raster_mode

definition default_config :: config where
  "default_config = \<lparr>
     warmup_length = 500, refine_every = 100, resolution_schedule = 3000,
     background_color = BgRandom, num_downscales = 2,
     cull_alpha_thresh = 0.1, cull_scale_thresh = 0.5,
     continue_cull_post_densification = True, reset_alpha_every = 30,
     densify_grad_thresh = 0.0002, densify_size_thresh = 0.01,
     n_split_samples = 2, sh_degree_interval = 1000,
     cull_screen_size = 0.15, split_screen_size = 0.05,
     stop_screen_size_at = 4000, random_init = False, num_random = 10000,
     ssim_lambda = 0.2, stop_split_at = 15000, sh_degree = 3,
     use_scale_regularization = False, max_gauss_ratio = 10,
     output_depth_during_training = False, rasterize_mode = Classic \<rparr>"

record gauss_params =
  means :: tensor
  scales :: tensor
  quats :: tensor
  features_dc :: tensor
  features_rest :: tensor
  opacities :: tensor

record model =
  config :: config
  num_train_data :: int
  training :: bool
  step :: int
  params :: gauss_params
  xys_grad_norm :: "real list option"
  vis_counts :: "real list option"
  max_2Dsize :: "real list option"
  last_size :: "int \<times> int"
  radii :: "int list"
  xys :: "real list list"
  xys_grad :: "real list list option"
  model_background :: "real list"

text \<open>The Adam state of one parameter group: \<open>None\<close> while \<open>exp_avg\<close> is not yet a key.\<close>

record adam_state =
  exp_avg :: "real list list"
  exp_avg_sq :: "real list list"

record optimizers =
  opt_means :: "adam_state option"
  opt_scales :: "adam_state option"
  opt_quats :: "adam_state option"
  opt_features_dc :: "adam_state option"
  opt_features_rest :: "adam_state option"
  opt_opacities :: "adam_state option"

definition num_points :: "model \<Rightarrow> nat" where
  "num_points m = length (rows (means (params m)))"

section \<open>Tensor helpers\<close>

definition sigmoid :: "real \<Rightarrow> real" where
  "sigmoid x = 1 / (1 + exp (- x))"

definition logit :: "real \<Rightarrow> real" where
  "logit p = ln (p / (1 - p))"

text \<open>\<open>t.max(dim=-1).values\<close> on one row; rows of the scale tensor have three entries.\<close>

fun amax :: "real list \<Rightarrow> real" where
  "amax [] = 0"
| "amax [x] = x"
| "amax (x # y # ys) = max x (amax (y # ys))"


text \<open>Boolean-mask indexing \<open>xs[mask]\<close>: the mask must have the length of the indexed axis.\<close>

definition select :: "bool list \<Rightarrow> 'a list \<Rightarrow> 'a list" where
  "select msk xs = map snd (filter fst (zip msk xs))"

definition index_mask :: "bool list \<Rightarrow> 'a list \<Rightarrow> error + 'a list" where
  "index_mask msk xs =
     (if length msk = length xs then Inr (select msk xs) else Inl IndexError)"

definition tensor_index :: "bool list \<Rightarrow> tensor \<Rightarrow> error + tensor" where
  "tensor_index msk t =
     bind_res (index_mask msk (rows t)) (\<lambda>rs. Inr (t\<lparr>rows := rs\<rparr>))"

text \<open>An elementwise binary operation on two 1-D tensors, with PyTorch's broadcasting.\<close>

definition bc2 :: "('a \<Rightarrow> 'b \<Rightarrow> 'c) \<Rightarrow> 'a list \<Rightarrow> 'b list \<Rightarrow> error + 'c list" where
  "bc2 f xs ys =
     (if length xs = length ys then Inr (map2 f xs ys)
      else if length ys = 1 then Inr (map (\<lambda>x. f x (hd ys)) xs)
      else if length xs = 1 then Inr (map (f (hd xs)) ys)
      else Inl RuntimeError)"

text \<open>The in-place forms (\<open>|=\<close>, \<open>&=\<close>): the left operand keeps its shape.\<close>

definition bc2_inplace :: "('a \<Rightarrow> 'b \<Rightarrow> 'a) \<Rightarrow> 'a list \<Rightarrow> 'b list \<Rightarrow> error + 'a list" where
  "bc2_inplace f xs ys =
     (if length xs = length ys then Inr (map2 f xs ys)
      else if length ys = 1 then Inr (map (\<lambda>x. f x (hd ys)) xs)
      else Inl RuntimeError)"

definition count_true :: "bool list \<Rightarrow> nat" where
  "count_true msk = length (filter id msk)"

text \<open>The loop \<open>for name, param in self.gauss_params.items()\<close> with a fallible body.\<close>

definition gp_mapM :: "(tensor \<Rightarrow> error + tensor) \<Rightarrow> gauss_params \<Rightarrow> error + gauss_params" where
  "gp_mapM f gp =
     bind_res (f (means gp)) (\<lambda>a.
     bind_res (f (scales gp)) (\<lambda>b.
     bind_res (f (quats gp)) (\<lambda>c.
     bind_res (f (features_dc gp)) (\<lambda>d.
     bind_res (f (features_rest gp)) (\<lambda>e.
     bind_res (f (opacities gp)) (\<lambda>g.
       Inr \<lparr>means = a, scales = b, quats = c, features_dc = d,
            features_rest = e, opacities = g\<rparr>))))))"

section \<open>cull_gaussians\<close>

text \<open>The size criterion of lines 574-587, before it is OR-ed into the mask.\<close>

definition toobigs_mask :: "model \<Rightarrow> error + bool list" where
  "toobigs_mask m =
     (let cfg = config m;
          toobigs = map (\<lambda>r. amax (map exp r) > cull_scale_thresh cfg) (rows (scales (params m)))
      in if step m < stop_screen_size_at cfg then
           (case max_2Dsize m of
              None \<Rightarrow> Inl AssertionError
            | Some s \<Rightarrow> bc2 (\<or>) toobigs (map (\<lambda>x. x > cull_screen_size cfg) s))
         else Inr toobigs)"

definition cull_mask :: "bool list option \<Rightarrow> model \<Rightarrow> error + bool list" where
  "cull_mask extra_cull_mask m =
     (let cfg = config m;
          culls = map (\<lambda>x. sigmoid x < cull_alpha_thresh cfg) (concat (rows (opacities (params m))))
      in bind_res (case extra_cull_mask of
                     None \<Rightarrow> Inr culls
                   | Some ex \<Rightarrow> bc2 (\<or>) culls ex) (\<lambda>culls.
         if step m > refine_every cfg * reset_alpha_every cfg then
           bind_res (toobigs_mask m) (\<lambda>toobigs. bc2 (\<or>) culls toobigs)
         else Inr culls))"

definition cull_gaussians :: "bool list option \<Rightarrow> model \<Rightarrow> error + (bool list \<times> model)" where
  "cull_gaussians extra_cull_mask m =
     (if num_points m = 1 then Inl ScalarMask
      else bind_res (cull_mask extra_cull_mask m) (\<lambda>culls.
           bind_res (gp_mapM (tensor_index (map Not culls)) (params m)) (\<lambda>gp.
             Inr (culls, m\<lparr>params := gp\<rparr>))))"

section \<open>Optimizer state surgery\<close>

definition remove_from_optim :: "bool list \<Rightarrow> adam_state option \<Rightarrow> error + adam_state option" where
  "remove_from_optim deleted_mask st =
     (case st of
        None \<Rightarrow> Inr None
      | Some a \<Rightarrow>
          bind_res (index_mask (map Not deleted_mask) (exp_avg a)) (\<lambda>ea.
          bind_res (index_mask (map Not deleted_mask) (exp_avg_sq a)) (\<lambda>es.
            Inr (Some \<lparr>exp_avg = ea, exp_avg_sq = es\<rparr>))))"

definition opt_mapM ::
  "(adam_state option \<Rightarrow> error + adam_state option) \<Rightarrow> optimizers \<Rightarrow> error + optimizers" where
  "opt_mapM f os =
     bind_res (f (opt_means os)) (\<lambda>a.
     bind_res (f (opt_scales os)) (\<lambda>b.
     bind_res (f (opt_quats os)) (\<lambda>c.
     bind_res (f (opt_features_dc os)) (\<lambda>d.
     bind_res (f (opt_features_rest os)) (\<lambda>e.
     bind_res (f (opt_opacities os)) (\<lambda>g.
       Inr \<lparr>opt_means = a, opt_scales = b, opt_quats = c, opt_features_dc = d,
            opt_features_rest = e, opt_opacities = g\<rparr>))))))"

definition remove_from_all_optim :: "optimizers \<Rightarrow> bool list \<Rightarrow> error + optimizers" where
  "remove_from_all_optim os deleted_mask = opt_mapM (remove_from_optim deleted_mask) os"

text \<open>Integer-tensor indexing \<open>xs[idcs]\<close>.\<close>

definition index_idcs :: "nat list \<Rightarrow> 'a list \<Rightarrow> error + 'a list" where
  "index_idcs idcs xs =
     (if list_all (\<lambda>i. i < length xs) idcs then Inr (map (\<lambda>i. xs ! i) idcs) else Inl IndexError)"

definition zeros_like :: "real list list \<Rightarrow> real list list" where
  "zeros_like rs = map (map (\<lambda>_. 0)) rs"

text \<open>\<open>t.repeat(n, 1, ...)\<close>: the rows tiled \<open>n\<close> times along the primitive axis.\<close>

definition repeat_rows :: "nat \<Rightarrow> 'a list \<Rightarrow> 'a list" where
  "repeat_rows n rs = concat (replicate n rs)"

definition dup_in_optim :: "nat list \<Rightarrow> nat \<Rightarrow> adam_state option \<Rightarrow> error + adam_state option" where
  "dup_in_optim dup_idcs n st =
     (case st of
        None \<Rightarrow> Inr None
      | Some a \<Rightarrow>
          bind_res (index_idcs dup_idcs (exp_avg a)) (\<lambda>ea.
          bind_res (index_idcs dup_idcs (exp_avg_sq a)) (\<lambda>es.
            Inr (Some \<lparr>exp_avg = exp_avg a @ repeat_rows n (zeros_like ea),
                       exp_avg_sq = exp_avg_sq a @ repeat_rows n (zeros_like es)\<rparr>))))"

definition dup_in_all_optim :: "optimizers \<Rightarrow> nat list \<Rightarrow> nat \<Rightarrow> error + optimizers" where
  "dup_in_all_optim os dup_idcs n = opt_mapM (dup_in_optim dup_idcs n) os"

text \<open>\<open>torch.where(mask)[0]\<close>: the indices at which the mask holds, ascending.\<close>

definition where_true :: "bool list \<Rightarrow> nat list" where
  "where_true msk = filter (\<lambda>i. msk ! i) [0..<length msk]"

section \<open>after_train\<close>

text \<open>Masked assignment \<open>xs[mask] = f(xs[mask], ys[mask])\<close> of equally long tensors.\<close>

definition masked_update ::
  "bool list \<Rightarrow> ('a \<Rightarrow> 'b \<Rightarrow> 'a) \<Rightarrow> 'a list \<Rightarrow> 'b list \<Rightarrow> error + 'a list" where
  "masked_update msk f xs ys =
     (if length msk = length xs \<and> length msk = length ys
      then Inr (map (\<lambda>(b, x, y). if b then f x y else x) (zip msk (zip xs ys)))
      else Inl IndexError)"

definition norm_row :: "real list \<Rightarrow> real" where
  "norm_row r = sqrt (sum_list (map (\<lambda>x. x * x) r))"

definition after_train :: "int \<Rightarrow> model \<Rightarrow> error + model" where
  "after_train st m =
     (if st \<noteq> step m then Inl AssertionError
      else if step m \<ge> stop_split_at (config m) then Inr m
      else
        let visible_mask = map (\<lambda>r. r > 0) (radii m) in
        case xys_grad m of
          None \<Rightarrow> Inl AssertionError
        | Some g \<Rightarrow>
            let grads = map norm_row g in
            bind_res
              (case xys_grad_norm m of
                 None \<Rightarrow> Inr (m\<lparr>xys_grad_norm := Some grads,
                               vis_counts := Some (map (\<lambda>_. 1) grads)\<rparr>)
               | Some acc \<Rightarrow>
                   (case vis_counts m of
                      None \<Rightarrow> Inl AssertionError
                    | Some vc \<Rightarrow>
                        bind_res (masked_update visible_mask (\<lambda>c _. c + 1) vc vc) (\<lambda>vc'.
                        bind_res (masked_update visible_mask (\<lambda>a gr. gr + a) acc grads) (\<lambda>acc'.
                          Inr (m\<lparr>vis_counts := Some vc', xys_grad_norm := Some acc'\<rparr>)))))
              (\<lambda>m1.
                 let m2d = (case max_2Dsize m1 of
                              None \<Rightarrow> map (\<lambda>_. 0) (radii m1)
                            | Some s \<Rightarrow> s);
                     denom = real_of_int (max (fst (last_size m1)) (snd (last_size m1)));
                     newradii = map (\<lambda>r. real_of_int r / denom) (radii m1)
                 in bind_res (masked_update visible_mask max m2d newradii) (\<lambda>m2d'.
                      Inr (m1\<lparr>max_2Dsize := Some m2d'\<rparr>))))"

section \<open>split_gaussians and dup_gaussians\<close>

text \<open>
  Two things the source takes from outside are parameters of the model: the rotation
  matrix of a quaternion (\<open>gsplat._torch_impl.quat_to_rotmat\<close>, a 3x3 matrix given as
  its rows) and the standard-normal samples of \<open>torch.randn\<close> (\<open>rnd i j\<close> is entry
  \<open>j\<close> of sample \<open>i\<close>).
\<close>

type_synonym rotmat_fn = "real list \<Rightarrow> real list list"
type_synonym sample_fn = "nat \<Rightarrow> nat \<Rightarrow> real"

definition size_fac :: real where
  "size_fac = 1.6"

definition shrink_row :: "real list \<Rightarrow> real list" where
  "shrink_row r = map (\<lambda>s. ln (exp s / size_fac)) r"

definition normalize_row :: "real list \<Rightarrow> real list" where
  "normalize_row q = map (\<lambda>x. x / norm_row q) q"

definition matvec :: "real list list \<Rightarrow> real list \<Rightarrow> real list" where
  "matvec A v = map (\<lambda>row. sum_list (map2 (*) row v)) A"

definition tensor_repeat :: "nat \<Rightarrow> tensor \<Rightarrow> tensor" where
  "tensor_repeat n t = t\<lparr>rows := repeat_rows n (rows t)\<rparr>"

definition split_gaussians ::
  "rotmat_fn \<Rightarrow> sample_fn \<Rightarrow> bool list \<Rightarrow> int \<Rightarrow> model \<Rightarrow> error + (gauss_params \<times> model)" where
  "split_gaussians quat_to_rotmat rnd split_mask samps m =
     (let gp = params m; n_splits = count_true split_mask in
      if num_points m = 0 then Inl ZeroDivisionError
      else if samps * int n_splits < 0 then Inl RuntimeError
      else
        let n = nat samps;
            centered_samples = map (\<lambda>i. map (rnd i) [0..<3]) [0..<n * n_splits]
        in
        bind_res (tensor_index split_mask (scales gp)) (\<lambda>sel_scales.
        if samps < 0 then Inl RuntimeError else
        bind_res (bc2 (\<lambda>s c. map2 (*) (map exp s) c)
                     (repeat_rows n (rows sel_scales)) centered_samples) (\<lambda>scaled_samples.
        bind_res (tensor_index split_mask (quats gp)) (\<lambda>sel_quats.
        let qs = map normalize_row (rows sel_quats);
            rots = map quat_to_rotmat (repeat_rows n qs);
            rotated_samples = map2 matvec rots scaled_samples
        in
        bind_res (tensor_index split_mask (means gp)) (\<lambda>sel_means.
        bind_res (bc2 (map2 (+)) rotated_samples (repeat_rows n (rows sel_means))) (\<lambda>new_means.
        bind_res (tensor_index split_mask (features_dc gp)) (\<lambda>sel_dc.
        bind_res (tensor_index split_mask (features_rest gp)) (\<lambda>sel_rest.
        bind_res (tensor_index split_mask (opacities gp)) (\<lambda>sel_opac.
        let new_scales = tensor_repeat n (sel_scales\<lparr>rows := map shrink_row (rows sel_scales)\<rparr>);
            scales' = (scales gp)\<lparr>rows :=
                         map2 (\<lambda>b r. if b then shrink_row r else r) split_mask (rows (scales gp))\<rparr>;
            out = \<lparr>means = sel_means\<lparr>rows := new_means\<rparr>,
                   scales = new_scales,
                   quats = tensor_repeat n sel_quats,
                   features_dc = tensor_repeat n sel_dc,
                   features_rest = tensor_repeat n sel_rest,
                   opacities = tensor_repeat n sel_opac\<rparr>
        in Inr (out, m\<lparr>params := gp\<lparr>scales := scales'\<rparr>\<rparr>))))))))))"

definition dup_gaussians :: "bool list \<Rightarrow> model \<Rightarrow> error + gauss_params" where
  "dup_gaussians dup_mask m =
     (if num_points m = 0 then Inl ZeroDivisionError
      else gp_mapM (tensor_index dup_mask) (params m))"

section \<open>refinement_after\<close>

text \<open>Lines 466-471: which primitives have a high average positional gradient.\<close>

definition high_grads_mask :: "model \<Rightarrow> real list \<Rightarrow> real list \<Rightarrow> error + bool list" where
  "high_grads_mask m grad_norm counts =
     bind_res (bc2 (/) grad_norm counts) (\<lambda>q.
       let scale = 0.5 * real_of_int (max (fst (last_size m)) (snd (last_size m)));
           avg_grad_norm = map (\<lambda>x. x * scale) q
       in Inr (map (\<lambda>x. x > densify_grad_thresh (config m)) avg_grad_norm))"

text \<open>Lines 472-480: the split mask.\<close>

definition splits_mask :: "model \<Rightarrow> bool list \<Rightarrow> real list \<Rightarrow> error + bool list" where
  "splits_mask m high_grads m2d =
     (let cfg = config m;
          splits = map (\<lambda>r. amax (map exp r) > densify_size_thresh cfg) (rows (scales (params m)))
      in bind_res (if step m < stop_screen_size_at cfg
                   then bc2_inplace (\<or>) splits (map (\<lambda>x. x > split_screen_size cfg) m2d)
                   else Inr splits) (\<lambda>splits.
         bc2_inplace (\<and>) splits high_grads))"

text \<open>Lines 484-488: the duplicate mask, read from the scales as split_gaussians left them.\<close>

definition dups_mask :: "model \<Rightarrow> bool list \<Rightarrow> error + bool list" where
  "dups_mask m high_grads =
     (let cfg = config m;
          dups = map (\<lambda>r. amax (map exp r) \<le> densify_size_thresh cfg) (rows (scales (params m)))
      in bc2_inplace (\<and>) dups high_grads)"

definition tensor_cat :: "tensor \<Rightarrow> tensor \<Rightarrow> tensor \<Rightarrow> error + tensor" where
  "tensor_cat a b c =
     (if tshape a = tshape b \<and> tshape a = tshape c
      then Inr (a\<lparr>rows := rows a @ rows b @ rows c\<rparr>)
      else Inl RuntimeError)"

definition gp_cat :: "gauss_params \<Rightarrow> gauss_params \<Rightarrow> gauss_params \<Rightarrow> error + gauss_params" where
  "gp_cat p s d =
     bind_res (tensor_cat (means p) (means s) (means d)) (\<lambda>a.
     bind_res (tensor_cat (scales p) (scales s) (scales d)) (\<lambda>b.
     bind_res (tensor_cat (quats p) (quats s) (quats d)) (\<lambda>c.
     bind_res (tensor_cat (features_dc p) (features_dc s) (features_dc d)) (\<lambda>e.
     bind_res (tensor_cat (features_rest p) (features_rest s) (features_rest d)) (\<lambda>f.
     bind_res (tensor_cat (opacities p) (opacities s) (opacities d)) (\<lambda>g.
       Inr \<lparr>means = a, scales = b, quats = c, features_dc = e,
            features_rest = f, opacities = g\<rparr>))))))"

text \<open>
  Lines 460-524: the masks, the append of children and duplicates to the store and to the
  optimizers, and the extra cull mask that marks the split parents. The result also
  carries the two selection masks.
\<close>

definition densify ::
  "rotmat_fn \<Rightarrow> sample_fn \<Rightarrow> optimizers \<Rightarrow> model
     \<Rightarrow> error + (optimizers \<times> model \<times> bool list \<times> bool list \<times> bool list)" where
  "densify quat_to_rotmat rnd os m =
     (case (xys_grad_norm m, vis_counts m, max_2Dsize m) of
        (Some grad_norm, Some counts, Some m2d) \<Rightarrow>
          if num_points m = 1 then Inl ScalarMask
          else
            bind_res (high_grads_mask m grad_norm counts) (\<lambda>high_grads.
            bind_res (splits_mask m high_grads m2d) (\<lambda>splits.
            let nsamps = n_split_samples (config m) in
            bind_res (split_gaussians quat_to_rotmat rnd splits nsamps m) (\<lambda>(split_params, m1).
            bind_res (dups_mask m1 high_grads) (\<lambda>dups.
            bind_res (dup_gaussians dups m1) (\<lambda>dup_params.
            bind_res (gp_cat (params m1) split_params dup_params) (\<lambda>gp.
            let n_new_split = length (rows (scales split_params));
                n_new_dup = length (rows (scales dup_params));
                m2 = m1\<lparr>params := gp,
                        max_2Dsize := Some (m2d @ replicate n_new_split 0 @ replicate n_new_dup 0)\<rparr>
            in
            bind_res (dup_in_all_optim os (where_true splits) (nat nsamps)) (\<lambda>os1.
            bind_res (dup_in_all_optim os1 (where_true dups) 1) (\<lambda>os2.
            let extra = splits @ replicate (nat nsamps * count_true splits + count_true dups) False
            in Inr (os2, m2, extra, splits, dups)))))))))
      | _ \<Rightarrow> Inl AssertionError)"

text \<open>Lines 539-548: the opacity reset.\<close>

definition reset_ceiling :: "config \<Rightarrow> real" where
  "reset_ceiling cfg = logit (cull_alpha_thresh cfg * 2.0)"

definition clamp_max :: "real \<Rightarrow> real \<Rightarrow> real" where
  "clamp_max c x = min x c"

definition reset_opacities :: "model \<Rightarrow> model" where
  "reset_opacities m =
     (let gp = params m;
          op = opacities gp
      in m\<lparr>params := gp\<lparr>opacities :=
             op\<lparr>rows := map (map (clamp_max (reset_ceiling (config m)))) (rows op)\<rparr>\<rparr>\<rparr>)"

definition reset_opacity_optim :: "optimizers \<Rightarrow> error + optimizers" where
  "reset_opacity_optim os =
     (case opt_opacities os of
        None \<Rightarrow> Inl KeyError
      | Some a \<Rightarrow> Inr (os\<lparr>opt_opacities :=
                           Some \<lparr>exp_avg = zeros_like (exp_avg a),
                                 exp_avg_sq = zeros_like (exp_avg_sq a)\<rparr>\<rparr>))"

definition do_opacity_reset :: "model \<Rightarrow> bool" where
  "do_opacity_reset m =
     (let cfg = config m;
          reset_interval = reset_alpha_every cfg * refine_every cfg
      in step m < stop_split_at cfg \<and> step m mod reset_interval = refine_every cfg)"

text \<open>
  Lines 453-537: densification with the removal of the split parents, or the cull after
  \<open>stop_split_at\<close>, or nothing; the optimizers follow the deleted mask.
\<close>

definition density_update ::
  "rotmat_fn \<Rightarrow> sample_fn \<Rightarrow> optimizers \<Rightarrow> model \<Rightarrow> error + (optimizers \<times> model)" where
  "density_update quat_to_rotmat rnd os m =
     (let cfg = config m;
          reset_interval = reset_alpha_every cfg * refine_every cfg
      in
      if step m < stop_split_at cfg \<and> reset_interval = 0 then Inl ZeroDivisionError
      else
        let do_densification =
              (step m < stop_split_at cfg
               \<and> step m mod reset_interval > num_train_data m + refine_every cfg)
        in
        bind_res
          (if do_densification then
             bind_res (densify quat_to_rotmat rnd os m) (\<lambda>(os1, m1, extra, _, _).
             bind_res (cull_gaussians (Some extra) m1) (\<lambda>(deleted_mask, m2).
               Inr (os1, m2, Some deleted_mask)))
           else if step m \<ge> stop_split_at cfg \<and> continue_cull_post_densification cfg then
             bind_res (cull_gaussians None m) (\<lambda>(deleted_mask, m2).
               Inr (os, m2, Some deleted_mask))
           else Inr (os, m, None))
          (\<lambda>(os1, m1, deleted_mask).
             case deleted_mask of
               None \<Rightarrow> Inr (os1, m1)
             | Some dm \<Rightarrow> bind_res (remove_from_all_optim os1 dm) (\<lambda>os2. Inr (os2, m1))))"

definition refinement_after ::
  "rotmat_fn \<Rightarrow> sample_fn \<Rightarrow> optimizers \<Rightarrow> int \<Rightarrow> model \<Rightarrow> error + (optimizers \<times> model)" where
  "refinement_after quat_to_rotmat rnd os st m =
     (if st \<noteq> step m then Inl AssertionError
      else if step m \<le> warmup_length (config m) then Inr (os, m)
      else
        bind_res (density_update quat_to_rotmat rnd os m) (\<lambda>(os1, m1).
        bind_res
          (if do_opacity_reset m1 then
             bind_res (reset_opacity_optim os1) (\<lambda>os2. Inr (os2, reset_opacities m1))
           else Inr (os1, m1))
          (\<lambda>(os2, m2).
             Inr (os2, m2\<lparr>xys_grad_norm := None, vis_counts := None, max_2Dsize := None\<rparr>))))"

section \<open>load_state_dict\<close>

type_synonym state_dict = "(string \<times> tensor) list"

definition param_names :: "string list" where
  "param_names = [''means'', ''scales'', ''quats'', ''features_dc'', ''features_rest'', ''opacities'']"

definition dict_set :: "string \<Rightarrow> tensor \<Rightarrow> state_dict \<Rightarrow> state_dict" where
  "dict_set k v d = (if k \<in> fst ` set d then map (\<lambda>(k', v'). if k' = k then (k', v) else (k', v')) d
                     else d @ [(k, v)])"

text \<open>Lines 310-318: the old key names are copied under the new ones.\<close>

fun remap_keys :: "string list \<Rightarrow> state_dict \<Rightarrow> error + state_dict" where
  "remap_keys [] d = Inr d"
| "remap_keys (p # ps) d =
     (case map_of d p of
        None \<Rightarrow> Inl KeyError
      | Some v \<Rightarrow> remap_keys ps (dict_set (''gauss_params.'' @ p) v d))"

definition zeros_tensor :: "nat \<Rightarrow> nat list \<Rightarrow> tensor" where
  "zeros_tensor n sh = \<lparr>tshape = sh, rows = replicate n (replicate (prod_list sh) 0)\<rparr>"

text \<open>Lines 320-323: every parameter becomes zeros of leading dimension \<open>newp\<close>.\<close>

definition resize_params :: "nat \<Rightarrow> gauss_params \<Rightarrow> gauss_params" where
  "resize_params newp gp =
     \<lparr>means = zeros_tensor newp (tshape (means gp)),
      scales = zeros_tensor newp (tshape (scales gp)),
      quats = zeros_tensor newp (tshape (quats gp)),
      features_dc = zeros_tensor newp (tshape (features_dc gp)),
      features_rest = zeros_tensor newp (tshape (features_rest gp)),
      opacities = zeros_tensor newp (tshape (opacities gp))\<rparr>"

text \<open>
  Modelled from the spec: \<open>torch.nn.Module.load_state_dict\<close> (PyTorch, not under src/),
  restricted to the six parameters of \<open>gauss_params\<close>: "restored structures are
  strict-shape assignments". A parameter is assigned from the dictionary when its key is
  there and the shapes agree, and is left as it is otherwise; after all assignments the
  call raises if a shape disagreed, or, with \<open>strict\<close>, if a key was missing or
  unexpected.
\<close>

definition load_param :: "state_dict \<Rightarrow> string \<Rightarrow> tensor \<Rightarrow> tensor" where
  "load_param d name p =
     (case map_of d (''gauss_params.'' @ name) of
        None \<Rightarrow> p
      | Some v \<Rightarrow> if tshape v = tshape p \<and> length (rows v) = length (rows p) then v else p)"

definition param_ok :: "state_dict \<Rightarrow> bool \<Rightarrow> string \<Rightarrow> tensor \<Rightarrow> bool" where
  "param_ok d strict name p =
     (case map_of d (''gauss_params.'' @ name) of
        None \<Rightarrow> \<not> strict
      | Some v \<Rightarrow> tshape v = tshape p \<and> length (rows v) = length (rows p))"

definition expected_keys :: "string list" where
  "expected_keys = map ((@) ''gauss_params.'') param_names"

definition module_load_state_dict ::
  "state_dict \<Rightarrow> bool \<Rightarrow> gauss_params \<Rightarrow> error option \<times> gauss_params" where
  "module_load_state_dict d strict gp =
     (let loaded = \<lparr>means = load_param d ''means'' (means gp),
                     scales = load_param d ''scales'' (scales gp),
                     quats = load_param d ''quats'' (quats gp),
                     features_dc = load_param d ''features_dc'' (features_dc gp),
                     features_rest = load_param d ''features_rest'' (features_rest gp),
                     opacities = load_param d ''opacities'' (opacities gp)\<rparr>;
          unexpected = filter (\<lambda>k. k \<notin> set expected_keys) (map fst d);
          ok = (param_ok d strict ''means'' (means gp)
                \<and> param_ok d strict ''scales'' (scales gp)
                \<and> param_ok d strict ''quats'' (quats gp)
                \<and> param_ok d strict ''features_dc'' (features_dc gp)
                \<and> param_ok d strict ''features_rest'' (features_rest gp)
                \<and> param_ok d strict ''opacities'' (opacities gp)
                \<and> (if strict then unexpected = [] else True))
      in (if ok then None else Some RuntimeError, loaded))"

text \<open>
  Modelled from the spec: \<open>torch.nn.Module.state_dict\<close> on the same six parameters: "a
  checkpoint is the full Primitive Store field set".
\<close>

definition state_dict_of :: "model \<Rightarrow> state_dict" where
  "state_dict_of m =
     (let gp = params m in
      [(''gauss_params.means'', means gp), (''gauss_params.scales'', scales gp),
       (''gauss_params.quats'', quats gp), (''gauss_params.features_dc'', features_dc gp),
       (''gauss_params.features_rest'', features_rest gp),
       (''gauss_params.opacities'', opacities gp)])"

text \<open>
  The result is the exception raised, if any, and the model as the call leaves it: the
  assignments made before a raise stay.
\<close>

definition load_state_dict :: "state_dict \<Rightarrow> bool \<Rightarrow> model \<Rightarrow> error option \<times> model" where
  "load_state_dict d strict m =
     (let m1 = m\<lparr>step := 30000\<rparr> in
      case (if ''means'' \<in> fst ` set d then remap_keys param_names d else Inr d) of
        Inl e \<Rightarrow> (Some e, m1)
      | Inr d1 \<Rightarrow>
          (case map_of d1 ''gauss_params.means'' of
             None \<Rightarrow> (Some KeyError, m1)
           | Some t \<Rightarrow>
               let newp = length (rows t);
                   m2 = m1\<lparr>params := resize_params newp (params m1)\<rparr>;
                   (err, gp) = module_load_state_dict d1 strict (params m2)
               in (err, m2\<lparr>params := gp\<rparr>)))"

section \<open>get_outputs up to the empty-render exit\<close>

type_synonym image = "real list list list"
type_synonym matrix = "real list list"

record outputs =
  rgb :: image
  depth :: "image option"
  accumulation :: image
  background :: "real list"

record projected =
  proj_radii :: "int list"
  proj_means2d :: "real list list"
  proj_depths :: "real list"
  proj_conics :: "real list list"

text \<open>
  What get_outputs takes from outside: the draw of \<open>torch.rand(3)\<close>, the kernels
  \<open>quat_scale_to_covar_perci\<close> and \<open>projection\<close>, and the compositing of lines
  848-960 (colours, tile intersection, rasterization), which the kernels decide.
\<close>

record backend =
  rand3 :: "real list"
  quat_scale_to_covar :: "real list list \<Rightarrow> real list list \<Rightarrow> real list list"
  projection :: "real list list \<Rightarrow> real list list \<Rightarrow> matrix \<Rightarrow> matrix \<Rightarrow> int \<Rightarrow> int \<Rightarrow> projected"
  composite :: "model \<Rightarrow> projected \<Rightarrow> real list \<Rightarrow> int \<Rightarrow> int \<Rightarrow> error + outputs"

definition has_shape :: "matrix \<Rightarrow> nat \<Rightarrow> nat \<Rightarrow> bool" where
  "has_shape A r c = (length A = r \<and> list_all (\<lambda>row. length row = c) A)"

definition get_downscale_factor :: "model \<Rightarrow> error + int" where
  "get_downscale_factor m =
     (if training m then
        (if resolution_schedule (config m) = 0 then Inl ZeroDivisionError
         else Inr (2 ^ nat (max (num_downscales (config m)
                                  - step m div resolution_schedule (config m)) 0)))
      else Inr 1)"

definition get_background :: "backend \<Rightarrow> model \<Rightarrow> real list" where
  "get_background be m =
     (if training m then
        (case background_color (config m) of
           BgRandom \<Rightarrow> rand3 be
         | BgWhite \<Rightarrow> [1, 1, 1]
         | BgBlack \<Rightarrow> [0, 0, 0]
         | BgOther \<Rightarrow> model_background m)
      else model_background m)"

definition view_matrix :: "matrix \<Rightarrow> matrix" where
  "view_matrix camera_to_world =
     (let R = map (take 3) (take 3 camera_to_world);
          T = map (\<lambda>row. row ! 3) (take 3 camera_to_world);
          R_inv = transpose R;
          T_inv = map uminus (matvec R_inv T)
      in map2 (\<lambda>r t. r @ [t]) R_inv T_inv @ [[0, 0, 0, 1]])"

text \<open>
  Lines 759-811 on the default path (\<open>UseGsplatV2\<close>): the camera is scaled down, the
  view matrix is built and the two kernels project the primitives.
\<close>

definition project_primitives ::
  "backend \<Rightarrow> matrix \<Rightarrow> matrix \<Rightarrow> int \<Rightarrow> int \<Rightarrow> int \<Rightarrow> model \<Rightarrow> projected" where
  "project_primitives be camera_to_world K W H camera_downscale m =
     (let fx = K ! 0 ! 0 / real_of_int camera_downscale;
          fy = K ! 1 ! 1 / real_of_int camera_downscale;
          cx = K ! 0 ! 2 / real_of_int camera_downscale;
          cy = K ! 1 ! 2 / real_of_int camera_downscale;
          viewmat = view_matrix camera_to_world;
          gp = params m;
          K2 = [[fx, 0, cx], [0, fy, cy], [0, 0, 1]];
          covars = quat_scale_to_covar be (map normalize_row (rows (quats gp)))
                     (map (map exp) (rows (scales gp)))
      in projection be (rows (means gp)) covars viewmat K2 W H)"

definition get_outputs ::
  "backend \<Rightarrow> matrix \<Rightarrow> matrix \<Rightarrow> int \<Rightarrow> int \<Rightarrow> model \<Rightarrow> error + (outputs \<times> model)" where
  "get_outputs be camera_to_world K width height m =
     (if \<not> (has_shape camera_to_world 4 4 \<and> has_shape K 3 3) then Inl AssertionError
      else
        let bg = get_background be m in
        bind_res (get_downscale_factor m) (\<lambda>camera_downscale.
        let W = width div camera_downscale; H = height div camera_downscale;
            m1 = m\<lparr>last_size := (H, W)\<rparr>;
            gp = params m1
        in
        if length (rows (features_dc gp)) \<noteq> length (rows (features_rest gp)) then Inl RuntimeError
        else
          let pr = project_primitives be camera_to_world K W H camera_downscale m1;
              m2 = m1\<lparr>radii := proj_radii pr, xys := proj_means2d pr\<rparr>
          in
          if sum_list (proj_radii pr) = 0 then
            (if H < 0 \<or> W < 0 then Inl RuntimeError
             else Inr (\<lparr>rgb = replicate (nat H) (replicate (nat W) bg),
                        depth = Some (replicate (nat H) (replicate (nat W) [10])),
                        accumulation = replicate (nat H) (replicate (nat W) [0]),
                        background = bg\<rparr>, m2))
          else bind_res (composite be m2 pr bg W H) (\<lambda>out. Inr (out, m2))))"

section \<open>get_loss_dict\<close>
















section \<open>Example states\<close>

definition demo_params :: gauss_params where
  "demo_params =
     \<lparr>means = \<lparr>tshape = [3], rows = [[0, 0, 0], [1, 1, 1]]\<rparr>,
      scales = \<lparr>tshape = [3], rows = [[-7, -7, -7], [0, 0, 0]]\<rparr>,
      quats = \<lparr>tshape = [4], rows = [[1, 0, 0, 0], [1, 0, 0, 0]]\<rparr>,
      features_dc = \<lparr>tshape = [3], rows = [[0, 0, 0], [0, 0, 0]]\<rparr>,
      features_rest = \<lparr>tshape = [15, 3], rows = [replicate 45 0, replicate 45 0]\<rparr>,
      opacities = \<lparr>tshape = [1], rows = [[0], [0]]\<rparr>\<rparr>"

text \<open>
  Two primitives under the default configuration with ten training views: primitive 0 is
  tiny, was seen with a large gradient and a large screen footprint; primitive 1 has
  unit scale and no gradient.
\<close>

definition demo_model :: "int \<Rightarrow> model" where
  "demo_model s =
     \<lparr>config = default_config, num_train_data = 10, training = True, step = s,
      params = demo_params,
      xys_grad_norm = Some [1, 0], vis_counts = Some [1, 1], max_2Dsize = Some [1, 0],
      last_size = (100, 100), radii = [1, 0], xys = [[0, 0], [0, 0]],
      xys_grad = Some [[1, 0], [0, 0]], model_background = [0, 0, 0]\<rparr>"

definition demo_adam :: "nat \<Rightarrow> adam_state option" where
  "demo_adam w = Some \<lparr>exp_avg = [replicate w 1, replicate w 1],
                       exp_avg_sq = [replicate w 1, replicate w 1]\<rparr>"

definition demo_optimizers :: optimizers where
  "demo_optimizers =
     \<lparr>opt_means = demo_adam 3, opt_scales = demo_adam 3, opt_quats = demo_adam 4,
      opt_features_dc = demo_adam 3, opt_features_rest = demo_adam 45,
      opt_opacities = demo_adam 1\<rparr>"

definition demo_rotmat :: rotmat_fn where
  "demo_rotmat q = [[1, 0, 0], [0, 1, 0], [0, 0, 1]]"

definition demo_rnd :: sample_fn where
  "demo_rnd i j = 0"

text \<open>A live model of three primitives, into which a checkpoint of two is loaded.\<close>

definition demo_live :: model where
  "demo_live =
     (demo_model 7)\<lparr>params :=
        \<lparr>means = \<lparr>tshape = [3], rows = [[5, 5, 5], [6, 6, 6], [7, 7, 7]]\<rparr>,
         scales = \<lparr>tshape = [3], rows = [[1, 1, 1], [1, 1, 1], [1, 1, 1]]\<rparr>,
         quats = \<lparr>tshape = [4], rows = [[0, 1, 0, 0], [0, 1, 0, 0], [0, 1, 0, 0]]\<rparr>,
         features_dc = \<lparr>tshape = [3], rows = [[1, 1, 1], [1, 1, 1], [1, 1, 1]]\<rparr>,
         features_rest = \<lparr>tshape = [15, 3], rows = [replicate 45 1, replicate 45 1, replicate 45 1]\<rparr>,
         opacities = \<lparr>tshape = [1], rows = [[2], [2], [2]]\<rparr>\<rparr>\<rparr>"

text \<open>A backend whose projection sees no primitive, and a camera at the origin.\<close>

definition demo_backend :: backend where
  "demo_backend =
     \<lparr>rand3 = [0.1, 0.2, 0.3],
      quat_scale_to_covar = (\<lambda>qs ss. map (\<lambda>_. [1, 0, 0, 1, 0, 1]) qs),
      projection = (\<lambda>ms cs V K W H. \<lparr>proj_radii = map (\<lambda>_. 0) ms,
                                        proj_means2d = map (\<lambda>_. [0, 0]) ms,
                                        proj_depths = map (\<lambda>_. 0) ms,
                                        proj_conics = map (\<lambda>_. [0, 0, 0]) ms\<rparr>),
      composite = (\<lambda>m pr bg W H. Inl RuntimeError)\<rparr>"

definition demo_camera :: matrix where
  "demo_camera = [[1, 0, 0, 0], [0, 1, 0, 0], [0, 0, 1, 0], [0, 0, 0, 1]]"

definition demo_K :: matrix where
  "demo_K = [[320, 0, 320], [0, 320, 320], [0, 0, 1]]"







definition demo_adam_grown :: "nat \<Rightarrow> adam_state option" where
  "demo_adam_grown w =
     Some \<lparr>exp_avg = [replicate w 1, replicate w 1, replicate w 0, replicate w 0, replicate w 0],
           exp_avg_sq = [replicate w 1, replicate w 1, replicate w 0, replicate w 0, replicate w 0]\<rparr>"


definition demo_culled_params :: gauss_params where
  "demo_culled_params =
     \<lparr>means = \<lparr>tshape = [3], rows = [[1, 1, 1], [0, 0, 0], [0, 0, 0], [0, 0, 0]]\<rparr>,
      scales = \<lparr>tshape = [3], rows = [[0, 0, 0], shrink_row [-7, -7, -7],
                                       shrink_row [-7, -7, -7], shrink_row [-7, -7, -7]]\<rparr>,
      quats = \<lparr>tshape = [4], rows = [[1, 0, 0, 0], [1, 0, 0, 0], [1, 0, 0, 0], [1, 0, 0, 0]]\<rparr>,
      features_dc = \<lparr>tshape = [3], rows = [[0, 0, 0], [0, 0, 0], [0, 0, 0], [0, 0, 0]]\<rparr>,
      features_rest = \<lparr>tshape = [15, 3], rows = [replicate 45 0, replicate 45 0, replicate 45 0,
                                                  replicate 45 0]\<rparr>,
      opacities = \<lparr>tshape = [1], rows = [[0], [0], [0], [0]]\<rparr>\<rparr>"




text \<open>The optimizers once the row of the removed parent is gone.\<close>

definition demo_adam_culled :: "nat \<Rightarrow> adam_state option" where
  "demo_adam_culled w =
     Some \<lparr>exp_avg = [replicate w 1, replicate w 0, replicate w 0, replicate w 0],
           exp_avg_sq = [replicate w 1, replicate w 0, replicate w 0, replicate w 0]\<rparr>"

definition demo_optimizers_culled :: optimizers where
  "demo_optimizers_culled =
     \<lparr>opt_means = demo_adam_culled 3, opt_scales = demo_adam_culled 3,
      opt_quats = demo_adam_culled 4, opt_features_dc = demo_adam_culled 3,
      opt_features_rest = demo_adam_culled 45, opt_opacities = demo_adam_culled 1\<rparr>"

section \<open>The specification's words\<close>












section \<open>Verified properties\<close>

text \<open>
  C2. While \<open>step \<le> warmup_length\<close> the refinement callback returns at once: called
  with the model's own step it gives back the optimizers and the model it was given, so
  the primitive count and all six parameter arrays are as before; called with another
  step it fails its first assertion.
\<close>

theorem warmup_no_refinement:
  assumes "step m \<le> warmup_length (config m)"
  shows "refinement_after quat_to_rotmat rnd os st m =
           (if st = step m then Inr (os, m) else Inl AssertionError)"
  using assms by (simp add: refinement_after_def)

theorem warmup_no_refinement_witness:
  "step (demo_model 500) \<le> warmup_length (config (demo_model 500))
   \<and> refinement_after demo_rotmat demo_rnd demo_optimizers 500 (demo_model 500)
       = Inr (demo_optimizers, demo_model 500)"
  using warmup_no_refinement [of "demo_model 500" demo_rotmat demo_rnd demo_optimizers 500]
  by (simp add: demo_model_def default_config_def)

text \<open>
  C10. From \<open>step \<ge> stop_split_at\<close> on, the statistics callback returns at once: the
  model it gives back is the one it was given, so the gradient-norm accumulator, the
  visibility counts and the screen-size buffer are untouched.
\<close>

theorem after_train_stops:
  assumes "step m \<ge> stop_split_at (config m)"
  shows "after_train st m = (if st = step m then Inr m else Inl AssertionError)"
  using assms by (simp add: after_train_def)

theorem after_train_stops_witness:
  "step (demo_model 15000) \<ge> stop_split_at (config (demo_model 15000))
   \<and> after_train 15000 (demo_model 15000) = Inr (demo_model 15000)"
  using after_train_stops [of "demo_model 15000" 15000]
  by (simp add: demo_model_def default_config_def)

text \<open>
  C9. Whatever the dictionary holds and whether or not the call then raises,
  load_state_dict leaves the step counter at 30000; the dictionary has no say in it.
\<close>

theorem load_state_dict_step:
  "step (snd (load_state_dict d strict m)) = 30000"
  by (simp add: load_state_dict_def Let_def split: sum.split option.split prod.split)

theorem load_state_dict_step_witness:
  "step (snd (load_state_dict (state_dict_of (demo_model 7)) True demo_live)) = 30000"
  using load_state_dict_step [of "state_dict_of (demo_model 7)" True demo_live]
  by simp

subsection \<open>Culling\<close>

lemma bind_res_simps [simp]:
  "bind_res (Inr x) f = f x" "bind_res (Inl e) f = Inl e"
  by (simp_all add: bind_res_def)














subsection \<open>Checkpoint round trip\<close>








subsection \<open>The empty render\<close>

lemma sum_list_all_zero:
  "list_all (\<lambda>r. r = 0) (rs :: int list) \<Longrightarrow> sum_list rs = 0"
  by (induction rs) auto

text \<open>
C6. A render that gets as far as the projection (camera matrices of the right shape, a
  downscale factor that exists, a non-negative image size, colour arrays of one length)
  and in which every projected radius is zero does not raise: it returns before any
  compositing with the background colour at every pixel of the H x W image, the depth 10
  at every pixel and the accumulation 0 at every pixel, and leaves the store as it was.
\<close>

theorem empty_render_is_background:
  assumes shapes: "has_shape camera_to_world 4 4" "has_shape K 3 3"
    and factor: "get_downscale_factor m = Inr d"
    and size: "0 \<le> width" "0 \<le> height"
    and store: "length (rows (features_dc (params m))) = length (rows (features_rest (params m)))"
    and invisible: "list_all (\<lambda>r. r = 0)
        (proj_radii (project_primitives be camera_to_world K (width div d) (height div d) d
                       (m\<lparr>last_size := (height div d, width div d)\<rparr>)))"
  shows "\<exists>m'. get_outputs be camera_to_world K width height m =
           Inr (\<lparr>rgb = replicate (nat (height div d)) (replicate (nat (width div d)) (get_background be m)),
                 depth = Some (replicate (nat (height div d)) (replicate (nat (width div d)) [10])),
                 accumulation = replicate (nat (height div d)) (replicate (nat (width div d)) [0]),
                 background = get_background be m\<rparr>, m')
           \<and> params m' = params m"
proof -
  have dpos: "0 < d"
    using factor by (auto simp: get_downscale_factor_def split: if_splits)
  then have nonneg: "\<not> (height div d < 0 \<or> width div d < 0)"
    using size by (simp add: pos_imp_zdiv_neg_iff)
  have s0: "sum_list (proj_radii (project_primitives be camera_to_world K (width div d) (height div d) d
                       (m\<lparr>last_size := (height div d, width div d)\<rparr>))) = 0"
    using invisible by (rule sum_list_all_zero)
  show ?thesis
    using shapes factor store s0 nonneg
    by (simp add: get_outputs_def Let_def bind_res_def)
qed

theorem empty_render_is_background_witness:
  "has_shape demo_camera 4 4 \<and> has_shape demo_K 3 3
   \<and> get_downscale_factor (demo_model 0) = Inr 4
   \<and> (0::int) \<le> 8 \<and> (0::int) \<le> 4
   \<and> (\<exists>m'. get_outputs demo_backend demo_camera demo_K 8 4 (demo_model 0) =
         Inr (\<lparr>rgb = [[[0.1, 0.2, 0.3], [0.1, 0.2, 0.3]]],
               depth = Some [[[10], [10]]],
               accumulation = [[[0], [0]]],
               background = [0.1, 0.2, 0.3]\<rparr>, m'))"
proof -
  have a: "has_shape demo_camera 4 4" by (simp add: has_shape_def demo_camera_def)
  have b: "has_shape demo_K 3 3" by (simp add: has_shape_def demo_K_def)
  have c: "get_downscale_factor (demo_model 0) = Inr 4"
    by (simp add: get_downscale_factor_def demo_model_def default_config_def)
  have d: "length (rows (features_dc (params (demo_model 0))))
           = length (rows (features_rest (params (demo_model 0))))"
    by (simp add: demo_model_def demo_params_def)
  have e: "list_all (\<lambda>r. r = 0)
        (proj_radii (project_primitives demo_backend demo_camera demo_K (8 div 4) (4 div 4) 4
                       ((demo_model 0)\<lparr>last_size := (4 div 4, 8 div 4)\<rparr>)))"
    by (simp add: project_primitives_def demo_backend_def Let_def demo_model_def demo_params_def)
  have bg: "get_background demo_backend (demo_model 0) = [0.1, 0.2, 0.3]"
    by (simp add: get_background_def demo_model_def default_config_def demo_backend_def)
  have r: "replicate 2 x = [x, x]" for x :: 'a
    by (simp add: numeral_2_eq_2)
  show ?thesis
    using empty_render_is_background [OF a b c _ _ d e] a b c
    by (auto simp: bg r)
qed

subsection \<open>The training loss\<close>







subsection \<open>The opacity reset\<close>

lemma bind_res_Inr_iff:
  "bind_res r f = Inr y \<longleftrightarrow> (\<exists>x. r = Inr x \<and> f x = Inr y)"
  by (cases r) auto

lemma cull_gaussians_frame:
  assumes "cull_gaussians ex m = Inr (culls, m')"
  shows "step m' = step m \<and> config m' = config m"
  using assms
  by (auto simp: cull_gaussians_def bind_res_Inr_iff split: if_splits)

lemma split_gaussians_frame:
  assumes "split_gaussians q rnd msk samps m = Inr (sp, m')"
  shows "step m' = step m \<and> config m' = config m"
  using assms
  by (auto simp: split_gaussians_def bind_res_Inr_iff Let_def split: if_splits)

lemma densify_frame:
  assumes "densify q rnd os m = Inr (os', m', extra, splits, dups)"
  shows "step m' = step m \<and> config m' = config m"
proof -
  from assms obtain sp m1 where "split_gaussians q rnd splits (n_split_samples (config m)) m = Inr (sp, m1)"
    and "step m' = step m1 \<and> config m' = config m1"
    by (auto simp: densify_def bind_res_Inr_iff Let_def split: option.splits if_splits)
  then show ?thesis using split_gaussians_frame by metis
qed

lemma density_update_frame:
  assumes "density_update q rnd os m = Inr (os', m')"
  shows "step m' = step m \<and> config m' = config m"
  using assms
  by (auto simp: density_update_def bind_res_Inr_iff Let_def
      split: if_splits option.splits)
     (metis densify_frame cull_gaussians_frame)+

lemma do_opacity_reset_frame:
  "step m' = step m \<and> config m' = config m \<Longrightarrow> do_opacity_reset m' = do_opacity_reset m"
  by (simp add: do_opacity_reset_def)

lemma clamp_max_idem: "clamp_max c (clamp_max c x) = clamp_max c x"
  by (simp add: clamp_max_def)

lemma reset_opacities_idem: "reset_opacities (reset_opacities m) = reset_opacities m"
  by (simp add: reset_opacities_def Let_def comp_def clamp_max_idem)


lemma clamp_rows_noop:
  "list_all (list_all (\<lambda>x. x \<le> c)) rs \<Longrightarrow> map (map (clamp_max c)) rs = rs"
  by (induction rs) (auto simp: clamp_max_def list_all_iff intro: map_idI)

lemma reset_opacities_noop:
  assumes "list_all (list_all (\<lambda>x. x \<le> reset_ceiling (config m))) (rows (opacities (params m)))"
  shows "reset_opacities m = m"
  using assms by (simp add: reset_opacities_def Let_def clamp_rows_noop)

lemma reset_opacities_bounded:
  "list_all (list_all (\<lambda>x. x \<le> reset_ceiling (config m)))
     (rows (opacities (params (reset_opacities m))))"
  by (simp add: reset_opacities_def Let_def list_all_iff clamp_max_def)

lemma reset_step_no_density_change:
  assumes "do_opacity_reset m"
    and "reset_alpha_every (config m) * refine_every (config m) \<noteq> 0"
    and "0 \<le> num_train_data m"
  shows "density_update q rnd os m = Inr (os, m)"
  using assms by (simp add: density_update_def do_opacity_reset_def Let_def)

text \<open>
  C5 (as amended). Past warm-up, whenever refinement_after returns, the opacities it
  leaves are those of the density update, clamped exactly when
  \<open>step < stop_split_at\<close> and \<open>step mod (reset_alpha_every \<times> refine_every) = refine_every\<close>;
  after the clamp every logit is at most \<open>logit (2 \<times> cull_alpha_thresh)\<close>, clamping
  twice equals clamping once, and a store whose logits are all at or below the ceiling
  is left as it is. At such a step (with a non-zero reset interval, a non-negative
  number of training views and an Adam state for the opacities) the call does return:
  the density update changes nothing, the opacities are clamped, the Adam moments of the
  opacities are zeroed and the statistics are cleared.
\<close>

theorem opacity_reset_past_warmup:
  assumes "warmup_length (config m) < step m"
  shows "(refinement_after q rnd os (step m) m = Inr (os', m') \<longrightarrow>
           (\<exists>os1 m1. density_update q rnd os m = Inr (os1, m1)
              \<and> params m' = params (if do_opacity_reset m then reset_opacities m1 else m1)
              \<and> list_all (list_all (\<lambda>x. x \<le> reset_ceiling (config m)))
                   (rows (opacities (params (reset_opacities m1))))
              \<and> reset_opacities (reset_opacities m1) = reset_opacities m1
              \<and> (list_all (list_all (\<lambda>x. x \<le> reset_ceiling (config m)))
                    (rows (opacities (params m1))) \<longrightarrow> reset_opacities m1 = m1)))
       \<and> (do_opacity_reset m \<and> reset_alpha_every (config m) * refine_every (config m) \<noteq> 0
            \<and> 0 \<le> num_train_data m \<and> opt_opacities os = Some a \<longrightarrow>
           refinement_after q rnd os (step m) m =
             Inr (os\<lparr>opt_opacities := Some \<lparr>exp_avg = zeros_like (exp_avg a),
                                             exp_avg_sq = zeros_like (exp_avg_sq a)\<rparr>\<rparr>,
                  (reset_opacities m)\<lparr>xys_grad_norm := None, vis_counts := None,
                                      max_2Dsize := None\<rparr>))"
proof (intro conjI impI)
  assume r: "refinement_after q rnd os (step m) m = Inr (os', m')"
  with assms obtain os1 m1 where du: "density_update q rnd os m = Inr (os1, m1)"
    and rest: "bind_res
          (if do_opacity_reset m1 then
             bind_res (reset_opacity_optim os1) (\<lambda>os2. Inr (os2, reset_opacities m1))
           else Inr (os1, m1))
          (\<lambda>(os2, m2).
             Inr (os2, m2\<lparr>xys_grad_norm := None, vis_counts := None, max_2Dsize := None\<rparr>))
        = Inr (os', m')"
    by (auto simp: refinement_after_def bind_res_Inr_iff)
  have p: "params m' = params (if do_opacity_reset m1 then reset_opacities m1 else m1)"
    using rest by (cases "do_opacity_reset m1") (auto simp: bind_res_Inr_iff)
  have fr: "step m1 = step m \<and> config m1 = config m"
    using du by (rule density_update_frame)
  then have "do_opacity_reset m1 = do_opacity_reset m" by (rule do_opacity_reset_frame)
  with p have p': "params m' = params (if do_opacity_reset m then reset_opacities m1 else m1)"
    by simp
  have b: "list_all (list_all (\<lambda>x. x \<le> reset_ceiling (config m)))
             (rows (opacities (params (reset_opacities m1))))"
    using reset_opacities_bounded [of m1] fr by simp
  have n: "list_all (list_all (\<lambda>x. x \<le> reset_ceiling (config m)))
             (rows (opacities (params m1))) \<longrightarrow> reset_opacities m1 = m1"
    using reset_opacities_noop [of m1] fr by simp
  show "\<exists>os1 m1. density_update q rnd os m = Inr (os1, m1)
              \<and> params m' = params (if do_opacity_reset m then reset_opacities m1 else m1)
              \<and> list_all (list_all (\<lambda>x. x \<le> reset_ceiling (config m)))
                   (rows (opacities (params (reset_opacities m1))))
              \<and> reset_opacities (reset_opacities m1) = reset_opacities m1
              \<and> (list_all (list_all (\<lambda>x. x \<le> reset_ceiling (config m)))
                    (rows (opacities (params m1))) \<longrightarrow> reset_opacities m1 = m1)"
    using du p' b n reset_opacities_idem by blast
next
  assume h: "do_opacity_reset m \<and> reset_alpha_every (config m) * refine_every (config m) \<noteq> 0
            \<and> 0 \<le> num_train_data m \<and> opt_opacities os = Some a"
  then have "density_update q rnd os m = Inr (os, m)"
    by (intro reset_step_no_density_change) auto
  then show "refinement_after q rnd os (step m) m =
             Inr (os\<lparr>opt_opacities := Some \<lparr>exp_avg = zeros_like (exp_avg a),
                                             exp_avg_sq = zeros_like (exp_avg_sq a)\<rparr>\<rparr>,
                  (reset_opacities m)\<lparr>xys_grad_norm := None, vis_counts := None,
                                      max_2Dsize := None\<rparr>)"
    using assms h by (simp add: refinement_after_def reset_opacity_optim_def)
qed

lemma default_ceiling_negative: "reset_ceiling default_config < 0"
  by (simp add: reset_ceiling_def logit_def default_config_def)

theorem opacity_reset_past_warmup_witness:
  "warmup_length (config (demo_model 3100)) < step (demo_model 3100)
   \<and> do_opacity_reset (demo_model 3100)
   \<and> refinement_after demo_rotmat demo_rnd demo_optimizers 3100 (demo_model 3100) =
       Inr (demo_optimizers\<lparr>opt_opacities := Some \<lparr>exp_avg = [[0], [0]], exp_avg_sq = [[0], [0]]\<rparr>\<rparr>,
            (demo_model 3100)\<lparr>params := demo_params\<lparr>opacities :=
                 \<lparr>tshape = [1], rows = [[reset_ceiling default_config],
                                          [reset_ceiling default_config]]\<rparr>\<rparr>,
               xys_grad_norm := None, vis_counts := None, max_2Dsize := None\<rparr>)"
proof -
  have w: "warmup_length (config (demo_model 3100)) < step (demo_model 3100)"
    by (simp add: demo_model_def default_config_def)
  have d: "do_opacity_reset (demo_model 3100)"
    by (simp add: do_opacity_reset_def demo_model_def default_config_def)
  have h: "do_opacity_reset (demo_model 3100)
        \<and> reset_alpha_every (config (demo_model 3100)) * refine_every (config (demo_model 3100)) \<noteq> 0
        \<and> 0 \<le> num_train_data (demo_model 3100)
        \<and> opt_opacities demo_optimizers = Some \<lparr>exp_avg = [[1], [1]], exp_avg_sq = [[1], [1]]\<rparr>"
    using d by (simp add: demo_model_def default_config_def demo_optimizers_def demo_adam_def)
  have s: "step (demo_model 3100) = 3100" by (simp add: demo_model_def)
  have c: "min 0 (reset_ceiling default_config) = reset_ceiling default_config"
    using default_ceiling_negative by simp
  have r: "reset_opacities (demo_model 3100) =
           (demo_model 3100)\<lparr>params := demo_params\<lparr>opacities :=
                 \<lparr>tshape = [1], rows = [[reset_ceiling default_config],
                                          [reset_ceiling default_config]]\<rparr>\<rparr>\<rparr>"
    by (simp add: reset_opacities_def demo_model_def demo_params_def clamp_max_def c)
  show ?thesis
    using opacity_reset_past_warmup [OF w, of demo_rotmat demo_rnd demo_optimizers _ _
        "\<lparr>exp_avg = [[1], [1]], exp_avg_sq = [[1], [1]]\<rparr>"] h w d
    by (simp add: s r zeros_like_def)
qed

text \<open>
  C5 as stated fails during warm-up: under the default configuration step 100
  satisfies \<open>step mod (reset_alpha_every \<times> refine_every) = refine_every\<close> and
  \<open>step < stop_split_at\<close>, yet refinement_after returns the model untouched, with
  opacity logits 0 above the negative ceiling.
\<close>

theorem opacity_reset_skipped_in_warmup:
  "do_opacity_reset (demo_model 100)
   \<and> refinement_after demo_rotmat demo_rnd demo_optimizers 100 (demo_model 100)
       = Inr (demo_optimizers, demo_model 100)
   \<and> rows (opacities (params (demo_model 100))) = [[0], [0]]
   \<and> reset_ceiling (config (demo_model 100)) < 0"
proof -
  have "reset_ceiling (config (demo_model 100)) < 0"
    using default_ceiling_negative by (simp add: demo_model_def)
  then show ?thesis
    by (simp add: do_opacity_reset_def refinement_after_def demo_model_def
        default_config_def demo_params_def)
qed

subsection \<open>Densification of the example model\<close>









lemma rep2: "replicate 2 x = [x, x]"
  by (simp add: numeral_2_eq_2)








lemma demo_optim_grown:
  "bind_res (dup_in_optim [0] 2 (demo_adam w)) (dup_in_optim [0] 1) = Inr (demo_adam_grown w)"
  by (simp add: dup_in_optim_def index_idcs_def demo_adam_def demo_adam_grown_def
      repeat_rows_def zeros_like_def rep2)




subsection \<open>Split and duplicate selection\<close>




lemma bc2_inplace_length:
  "bc2_inplace f xs ys = Inr zs \<Longrightarrow> length zs = length xs"
  by (auto simp: bc2_inplace_def split: if_splits)


lemma splits_mask_length:
  assumes "splits_mask m hg m2d = Inr splits"
  shows "length splits = length (rows (scales (params m)))"
  using assms
  by (auto simp: splits_mask_def Let_def bind_res_Inr_iff dest!: bc2_inplace_length split: if_splits)


lemma dups_mask_length:
  assumes "dups_mask m hg = Inr dups"
  shows "length dups = length (rows (scales (params m)))"
  using assms by (auto simp: dups_mask_def Let_def dest!: bc2_inplace_length)






end
